theory Spec2Isabelle
  imports Main "HOL-Library.Word" "HOL-Library.AList"
begin

text \<open>
  A shallow embedding of the parts of the telehash endpoint that the specification's
  claims are about: the priority of an IPv4 path, the bridge module's route tables and
  its read loop, the construction of an e3x address, the UDP transport's addresses and
  its write, and the channel dispatch of a peer. What a function takes from the Go
  standard library or from a package outside the sources is a parameter of its model
  unless said otherwise.
\<close>

type_synonym byte = "8 word"

section \<open>IPv4 network paths (package telehash, net_path_ipv4.go)\<close>

text \<open>
  Go's \<open>int\<close>: a signed machine integer whose arithmetic wraps around, 64 bits wide as
  on the 64-bit platforms. \<open>sint\<close> reads its value.
\<close>

type_synonym go_int = "64 word"

text \<open>
  Modelled from the spec: the declaration of \<open>ip_addr_category\<close> is not among the
  sources. The spec's path categories loopback, LAN and WAN are the constants
  \<open>ip_localhost\<close>, \<open>ip_lan\<close> and \<open>ip_wan\<close> that the source names;
  \<open>ip_unknown\<close> stands for every other value of the Go integer type, the values
  that reach the \<open>default\<close> branch of the switch in \<open>Priority\<close>.
\<close>

datatype ip_addr_category = ip_unknown | ip_localhost | ip_lan | ip_wan

text \<open>
  Modelled from the spec: \<open>net_path_priority\<close> (the type of the dynamic priority
  delta, with its methods \<open>Get\<close>, \<open>Add\<close> and \<open>Reset\<close>) is not among the
  sources. The spec describes a signed counter that is read, changed by a signed amount
  and reset to 0. The source adds the result of \<open>Get\<close> to an \<open>int\<close> and passes an
  \<open>int\<close> to \<open>Add\<close>, so the counter is a Go \<open>int\<close> and \<open>Add\<close> wraps
  around as Go's addition does.
\<close>

type_synonym net_path_priority = go_int

definition Get :: "net_path_priority \<Rightarrow> go_int" where
  "Get d = d"

definition Add :: "go_int \<Rightarrow> net_path_priority \<Rightarrow> net_path_priority" where
  "Add i d = d + i"

definition Reset :: "net_path_priority \<Rightarrow> net_path_priority" where
  "Reset d = 0"

text \<open>
  \<open>type IPv4net_path struct { cat; IP; Port; hash; priority_delta }\<close>. A
  \<open>net.IP\<close> is a byte slice.
\<close>

record IPv4net_path =
  cat :: ip_addr_category
  IP :: "byte list"
  Port :: go_int
  hash :: "32 word"
  priority_delta :: net_path_priority

text \<open>\<open>func (n *IPv4net_path) Priority() int\<close>: the switch on the category, the sum
  in Go's \<open>int\<close>.\<close>

definition Priority :: "IPv4net_path \<Rightarrow> go_int" where
  "Priority n =
     (case cat n of
        ip_localhost \<Rightarrow> 8 + Get (priority_delta n)
      | ip_lan \<Rightarrow> 6 + Get (priority_delta n)
      | ip_wan \<Rightarrow> 4 + Get (priority_delta n)
      | ip_unknown \<Rightarrow> 0 + Get (priority_delta n))"

text \<open>\<open>Demote\<close>: \<open>n.priority_delta.Add(-1)\<close>.\<close>

definition Demote :: "IPv4net_path \<Rightarrow> IPv4net_path" where
  "Demote n = n\<lparr>priority_delta := Add (- 1) (priority_delta n)\<rparr>"

text \<open>\<open>Break\<close>: \<open>n.priority_delta.Add(-3 - n.Priority())\<close>, the difference in
  Go's \<open>int\<close>.\<close>

definition Break :: "IPv4net_path \<Rightarrow> IPv4net_path" where
  "Break n = n\<lparr>priority_delta := Add (- 3 - Priority n) (priority_delta n)\<rparr>"

text \<open>\<open>ResetPriority\<close>: \<open>n.priority_delta.Reset()\<close>.\<close>

definition ResetPriority :: "IPv4net_path \<Rightarrow> IPv4net_path" where
  "ResetPriority n = n\<lparr>priority_delta := Reset (priority_delta n)\<rparr>"

text \<open>\<open>SendNatBreaker\<close>: \<open>return n.cat == ip_wan\<close>.\<close>

definition SendNatBreaker :: "IPv4net_path \<Rightarrow> bool" where
  "SendNatBreaker n = (cat n = ip_wan)"

text \<open>
  The category scores as the spec words them, as integers: loopback 8, LAN 6, WAN 4,
  relay 1. An IPv4 path has no category named relay; the score 1 is given to the one
  remaining category.
\<close>

definition spec_category_base :: "ip_addr_category \<Rightarrow> int" where
  "spec_category_base c =
     (case c of ip_localhost \<Rightarrow> 8 | ip_lan \<Rightarrow> 6 | ip_wan \<Rightarrow> 4 | ip_unknown \<Rightarrow> 1)"

text \<open>The category scores of the source: the default branch of the switch adds 0.\<close>

definition category_base :: "ip_addr_category \<Rightarrow> int" where
  "category_base c =
     (case c of ip_localhost \<Rightarrow> 8 | ip_lan \<Rightarrow> 6 | ip_wan \<Rightarrow> 4 | ip_unknown \<Rightarrow> 0)"


section \<open>The bridge module (package bridge)\<close>

text \<open>A \<open>cipherset.Token\<close> is an array of 16 bytes.\<close>

type_synonym Token = "byte list"

text \<open>
  Modelled from the spec: \<open>e3x.Exchange\<close> is not among the sources. The spec has the
  bridge forward between exchanges it only refers to, and the module only stores and
  compares pointers to them, so a pointer is \<open>NilExchange\<close> or the identity of an
  exchange.
\<close>

datatype Exchange_ptr = NilExchange | Exchange nat

text \<open>
  A Go map, as the list of its entries in the order a \<open>range\<close> statement visits them
  (an order Go leaves unspecified). \<open>map_of\<close> reads an entry, \<open>AList.update\<close>
  is \<open>m[k] = v\<close> and \<open>AList.delete\<close> is \<open>delete(m, k)\<close>. Indexing a map of
  pointers with a key it does not hold gives the nil pointer.
\<close>

type_synonym ('k, 'v) go_map = "('k \<times> 'v) list"

definition go_index :: "(Token, Exchange_ptr) go_map \<Rightarrow> Token \<Rightarrow> Exchange_ptr" where
  "go_index m k = (case map_of m k of None \<Rightarrow> NilExchange | Some x \<Rightarrow> x)"

text \<open>\<open>type module struct\<close>: the two route tables (the mutex, the endpoint and the
  logger are left out).\<close>

record module =
  packetRoutes :: "(Token, Exchange_ptr) go_map"
  handshakeRoutes :: "(Token, Exchange_ptr) go_map"

definition newBridge :: module where
  "newBridge = \<lparr>packetRoutes = [], handshakeRoutes = []\<rparr>"

text \<open>\<open>RouteToken\<close>: the handshake route is stored only for a target that is not nil.\<close>

definition RouteToken :: "Token \<Rightarrow> Exchange_ptr \<Rightarrow> Exchange_ptr \<Rightarrow> module \<Rightarrow> module" where
  "RouteToken token source target md =
     (let md1 = md\<lparr>packetRoutes := AList.update token source (packetRoutes md)\<rparr>
      in if target \<noteq> NilExchange
         then md1\<lparr>handshakeRoutes := AList.update token target (handshakeRoutes md1)\<rparr>
         else md1)"

definition BreakRoute :: "Token \<Rightarrow> module \<Rightarrow> module" where
  "BreakRoute token md =
     md\<lparr>packetRoutes := AList.delete token (packetRoutes md),
        handshakeRoutes := AList.delete token (handshakeRoutes md)\<rparr>"

definition lookupToken :: "module \<Rightarrow> Token \<Rightarrow> Exchange_ptr \<times> Exchange_ptr" where
  "lookupToken md token =
     (go_index (packetRoutes md) token, go_index (handshakeRoutes md) token)"

text \<open>
  The first loop of \<open>on_exchange_closed\<close>,
  \<open>for token, x := range mod.packetRoutes { if e.Exchange == x { delete; delete } }\<close>,
  over the keys the table held when the loop started. An entry deleted before the loop
  reaches it is not produced, so each step reads the table as it is then.
\<close>

fun range_packetRoutes :: "Token list \<Rightarrow> Exchange_ptr \<Rightarrow> module \<Rightarrow> module" where
  "range_packetRoutes [] e md = md"
| "range_packetRoutes (token # rest) e md =
     range_packetRoutes rest e
       (case map_of (packetRoutes md) token of
          None \<Rightarrow> md
        | Some x \<Rightarrow>
            if e = x
            then md\<lparr>packetRoutes := AList.delete token (packetRoutes md),
                    handshakeRoutes := AList.delete token (handshakeRoutes md)\<rparr>
            else md)"

text \<open>The second loop, over \<open>mod.handshakeRoutes\<close>.\<close>

fun range_handshakeRoutes :: "Token list \<Rightarrow> Exchange_ptr \<Rightarrow> module \<Rightarrow> module" where
  "range_handshakeRoutes [] e md = md"
| "range_handshakeRoutes (token # rest) e md =
     range_handshakeRoutes rest e
       (case map_of (handshakeRoutes md) token of
          None \<Rightarrow> md
        | Some x \<Rightarrow>
            if e = x
            then md\<lparr>packetRoutes := AList.delete token (packetRoutes md),
                    handshakeRoutes := AList.delete token (handshakeRoutes md)\<rparr>
            else md)"

text \<open>\<open>on_exchange_closed\<close>, given the exchange of the event.\<close>

definition on_exchange_closed :: "Exchange_ptr \<Rightarrow> module \<Rightarrow> module" where
  "on_exchange_closed e md =
     (let md1 = range_packetRoutes (map fst (packetRoutes md)) e md
      in range_handshakeRoutes (map fst (handshakeRoutes md1)) e md1)"

text \<open>
  What one read of the wrapped transport gives: an error with the count and the source it
  came with, or a frame \<open>p[:n]\<close> and its source.
\<close>

datatype 'addr read_result = ReadErr int 'addr string | ReadOk "byte list" 'addr

datatype panic = IndexOutOfRange | NilDereference

text \<open>
  How a call of \<open>ReadMessage\<close> ends: it returns the error of the wrapped transport, it
  returns a frame, it panics, or the wrapped transport has nothing more to read and the
  call does not return.
\<close>

datatype 'addr outcome =
    ReturnErr int 'addr string
  | ReturnFrame "byte list" 'addr
  | Panic panic
  | Blocked

text \<open>
  \<open>buf[0] == 0 && buf[1] == 1\<close>: the second byte is read only when the first is 0,
  and a read past the end of the slice panics.
\<close>

fun is_handshake :: "byte list \<Rightarrow> bool option" where
  "is_handshake [] = None"
| "is_handshake [b0] = (if b0 = 0 then None else Some False)"
| "is_handshake (b0 # b1 # rest) = Some (b0 = 0 \<and> b1 = 1)"

text \<open>
  \<open>func (t *transport) ReadMessage\<close> of the bridge. The reads of the wrapped
  transport are a list, the datagrams written to it so far are \<open>sent\<close>, and the result
  is the outcome with the datagrams written. \<open>cipherset.ExtractToken\<close> and the
  exchange's \<open>ActivePath\<close> are not among the sources and are parameters.
  \<open>nil_ActivePath\<close> is what the calls on a nil exchange give: \<open>None\<close> when
  they panic, as methods that read the exchange do, or the address they give. The
  source has no guard before \<open>ex.ActivePath()\<close>. The result of the inner
  \<open>WriteMessage\<close> only chooses the log line. The route tables do not change during
  the call.
\<close>

fun ReadMessage ::
  "(byte list \<Rightarrow> Token) \<Rightarrow> (nat \<Rightarrow> 'addr) \<Rightarrow> 'addr option \<Rightarrow> module \<Rightarrow>
   'addr read_result list \<Rightarrow> (byte list \<times> 'addr) list \<Rightarrow>
   'addr outcome \<times> (byte list \<times> 'addr) list" where
  "ReadMessage ExtractToken ActivePath nil_ActivePath md [] sent = (Blocked, sent)"
| "ReadMessage ExtractToken ActivePath nil_ActivePath md (ReadErr n src err # reads) sent =
     (ReturnErr n src err, sent)"
| "ReadMessage ExtractToken ActivePath nil_ActivePath md (ReadOk buf src # reads) sent =
     (let token = ExtractToken buf;
          (source, target) = lookupToken md token
      in if source = NilExchange then (ReturnFrame buf src, sent)
         else (case is_handshake buf of
                 None \<Rightarrow> (Panic IndexOutOfRange, sent)
               | Some hdr \<Rightarrow>
                   (case (if hdr then target else source) of
                      NilExchange \<Rightarrow>
                        (case nil_ActivePath of
                           None \<Rightarrow> (Panic NilDereference, sent)
                         | Some dst \<Rightarrow>
                             ReadMessage ExtractToken ActivePath nil_ActivePath md reads
                               (sent @ [(buf, dst)]))
                    | Exchange ex \<Rightarrow>
                        ReadMessage ExtractToken ActivePath nil_ActivePath md reads
                          (sent @ [(buf, ActivePath ex)]))))"


section \<open>Addresses of an endpoint (package e3x)\<close>

text \<open>
  \<open>cipherset.Keys\<close> maps a cipher-set id to a key, taken as the bytes of the public
  key; \<open>cipherset.Parts\<close> maps a cipher-set id to a string.
\<close>

type_synonym CSID = "8 word"
type_synonym Keys = "CSID \<rightharpoonup> byte list"
type_synonym Parts = "CSID \<rightharpoonup> string"

text \<open>Lower-case hexadecimal, as \<open>hex.EncodeToString\<close> writes it.\<close>

definition hex_digit :: "nat \<Rightarrow> char" where
  "hex_digit n = ''0123456789abcdef'' ! n"

definition hex_byte :: "byte \<Rightarrow> string" where
  "hex_byte b = [hex_digit (unat b div 16), hex_digit (unat b mod 16)]"

definition hex_EncodeToString :: "byte list \<Rightarrow> string" where
  "hex_EncodeToString bs = concat (map hex_byte bs)"

text \<open>
  Modelled from the spec: \<open>hashname.PartsFromKeys\<close> is not among the sources. The spec
  has it return the intermediates: for every cipher-set id of the key map, the
  hexadecimal form of the SHA-256 hash of the public key. SHA-256 is a parameter.
\<close>

definition PartsFromKeys :: "(byte list \<Rightarrow> byte list) \<Rightarrow> Keys \<Rightarrow> Parts" where
  "PartsFromKeys SHA256 ks =
     (\<lambda>csid. case ks csid of
        None \<Rightarrow> None
      | Some key \<Rightarrow> Some (hex_EncodeToString (SHA256 key)))"

record ('h, 'a) Addr =
  hashname :: 'h
  keys :: Keys
  parts :: Parts
  addrs :: "'a list"

datatype 'e NewAddr_error = ErrNoKeys | ErrNoAddress | FromIntermediates_error 'e

text \<open>
  \<open>func NewAddr(keys, parts, addrs)\<close>. A nil \<open>parts\<close> is \<open>None\<close>; the loop
  \<open>for csid, part := range hashname.PartsFromKeys(addr.keys) { addr.parts[csid] = part }\<close>
  stores every derived part over what the map held, which is \<open>++\<close> whatever the order.
  \<open>hashname.FromIntermediates\<close> is not among the sources and is a parameter.
\<close>

definition NewAddr ::
  "(byte list \<Rightarrow> byte list) \<Rightarrow> (Parts \<Rightarrow> 'e + 'h) \<Rightarrow> Keys \<Rightarrow> Parts option \<Rightarrow> 'a list \<Rightarrow>
   'e NewAddr_error + ('h, 'a) Addr" where
  "NewAddr SHA256 FromIntermediates ks ps as =
     (if dom ks = {} then Inl ErrNoKeys
      else if as = [] then Inl ErrNoAddress
      else
        let parts0 = (case ps of None \<Rightarrow> Map.empty | Some p \<Rightarrow> p);
            parts1 = parts0 ++ PartsFromKeys SHA256 ks
        in case FromIntermediates parts1 of
             Inl err \<Rightarrow> Inl (FromIntermediates_error err)
           | Inr h \<Rightarrow> Inr \<lparr>hashname = h, keys = ks, parts = parts1, addrs = as\<rparr>)"

text \<open>
  The parts of a constructed address, entry by entry: the part derived from the key where
  the key map has one, the caller's part elsewhere.
\<close>

definition merged_parts :: "(byte list \<Rightarrow> byte list) \<Rightarrow> Keys \<Rightarrow> Parts option \<Rightarrow> Parts" where
  "merged_parts SHA256 ks ps =
     (\<lambda>csid. case ks csid of
        Some key \<Rightarrow> Some (hex_EncodeToString (SHA256 key))
      | None \<Rightarrow> (case ps of None \<Rightarrow> None | Some p \<Rightarrow> p csid))"


section \<open>The UDP transport (package udp)\<close>

type_synonym net_IP = "byte list"

text \<open>\<open>type addr struct { hn; net; net.UDPAddr }\<close>, the embedded \<open>UDPAddr\<close> with
  its fields \<open>IP\<close>, \<open>Port\<close> and \<open>Zone\<close>.\<close>

record addr =
  addr_hn :: string
  addr_net :: string
  addr_IP :: net_IP
  addr_Port :: int
  addr_Zone :: string

definition UDPv4 :: string where "UDPv4 = ''udp4''"
definition UDPv6 :: string where "UDPv6 = ''udp6''"

datatype udp_error = ErrInvalidAddr | ErrShortWrite | ErrUdpInvalidAddress | SocketError string

text \<open>
  \<open>To4\<close>, \<open>Equal\<close> and \<open>IsUnspecified\<close> of \<open>net.IP\<close>, as the Go library
  documents them: an IPv4 address is 4 bytes, or 16 bytes that start with the prefix of
  an IPv4 address mapped into IPv6.
\<close>

definition v4InV6Prefix :: "byte list" where
  "v4InV6Prefix = [0, 0, 0, 0, 0, 0, 0, 0, 0, 0, 255, 255]"

definition To4 :: "net_IP \<Rightarrow> net_IP option" where
  "To4 ip =
     (if length ip = 4 then Some ip
      else if length ip = 16 \<and> take 12 ip = v4InV6Prefix then Some (drop 12 ip)
      else None)"

definition IP_Equal :: "net_IP \<Rightarrow> net_IP \<Rightarrow> bool" where
  "IP_Equal ip x =
     (if length ip = length x then ip = x
      else if length ip = 4 \<and> length x = 16 then take 12 x = v4InV6Prefix \<and> ip = drop 12 x
      else if length ip = 16 \<and> length x = 4 then take 12 ip = v4InV6Prefix \<and> drop 12 ip = x
      else False)"

definition IsUnspecified :: "net_IP \<Rightarrow> bool" where
  "IsUnspecified ip =
     (IP_Equal ip (v4InV6Prefix @ [0, 0, 0, 0])
      \<or> IP_Equal ip [0, 0, 0, 0, 0, 0, 0, 0, 0, 0, 0, 0, 0, 0, 0, 0])"

text \<open>\<open>func NewAddr(ip net.IP, port uint16)\<close> of package udp; a nil \<open>ip\<close> is
  \<open>None\<close>.\<close>

definition udp_NewAddr :: "net_IP option \<Rightarrow> 16 word \<Rightarrow> udp_error + addr" where
  "udp_NewAddr ip port =
     (case ip of
        None \<Rightarrow> Inl ErrUdpInvalidAddress
      | Some i \<Rightarrow>
          if port = 0 then Inl ErrUdpInvalidAddress
          else Inr \<lparr>addr_hn = [], addr_net = (if To4 i = None then UDPv6 else UDPv4),
                    addr_IP = i, addr_Port = uint port, addr_Zone = []\<rparr>)"

text \<open>\<open>type transport struct\<close>: the network and the destination network; the socket
  is the parameter \<open>WriteToUDP\<close> of the write.\<close>

record 'n transport =
  transport_net :: string
  transport_dest :: 'n

text \<open>
  A value of the interface \<open>transports.Addr\<close>: the nil interface, a pointer to an
  \<open>addr\<close> of this package (which may be a nil pointer), or an address of another type.
\<close>

datatype transports_Addr = NilAddr | UDP_addr "addr option" | Other_addr string

text \<open>
  \<open>func (t *transport) WriteMessage(p, dst)\<close> of package udp. \<open>Contains\<close> is
  \<open>(*net.IPNet).Contains\<close>, and \<open>WriteToUDP\<close> gives what the socket answers: the
  number of bytes written and an error or none. The result is the error returned, or
  none, with the datagrams handed to the socket.
\<close>

definition WriteMessage ::
  "('n \<Rightarrow> net_IP \<Rightarrow> bool) \<Rightarrow> (byte list \<Rightarrow> addr \<Rightarrow> int \<times> string option) \<Rightarrow> 'n transport \<Rightarrow>
   byte list \<Rightarrow> transports_Addr \<Rightarrow> udp_error option \<times> (byte list \<times> addr) list" where
  "WriteMessage Contains WriteToUDP t p dst =
     (case dst of
        UDP_addr (Some a) \<Rightarrow>
          if addr_net a \<noteq> transport_net t then (Some ErrInvalidAddr, [])
          else if \<not> Contains (transport_dest t) (addr_IP a) then (Some ErrInvalidAddr, [])
          else (case WriteToUDP p a of
                  (n, Some err) \<Rightarrow> (Some (SocketError err), [(p, a)])
                | (n, None) \<Rightarrow>
                    if n \<noteq> int (length p) then (Some ErrShortWrite, [(p, a)])
                    else (None, [(p, a)]))
      | _ \<Rightarrow> (Some ErrInvalidAddr, []))"

text \<open>
  The write's short-write rule as the claim words it: \<open>io.ErrShortWrite\<close> is returned
  exactly when fewer bytes than the payload were written.
\<close>

definition spec_WriteMessage_short_write ::
  "(byte list \<Rightarrow> addr \<Rightarrow> int \<times> string option) \<Rightarrow> byte list \<Rightarrow> addr \<Rightarrow> udp_error option \<Rightarrow> bool" where
  "spec_WriteMessage_short_write WriteToUDP p a result =
     ((result = Some ErrShortWrite) = (fst (WriteToUDP p a) < int (length p)))"

text \<open>The struct both \<open>decodeAddress\<close> and \<open>MarshalJSON\<close> declare for the JSON
  form, with its fields \<open>type\<close>, \<open>ip\<close> and \<open>port\<close>.\<close>

record desc =
  desc_Type :: string
  desc_IP :: string
  desc_Port :: int

text \<open>\<open>func (a *addr) MarshalJSON()\<close>; \<open>json.Marshal\<close> and \<open>net.IP.String\<close>
  are parameters.\<close>

definition MarshalJSON :: "(desc \<Rightarrow> 'd) \<Rightarrow> (net_IP \<Rightarrow> string) \<Rightarrow> addr \<Rightarrow> 'd" where
  "MarshalJSON json_Marshal IP_String a =
     json_Marshal \<lparr>desc_Type = addr_net a, desc_IP = IP_String (addr_IP a),
                   desc_Port = addr_Port a\<rparr>"

text \<open>\<open>func decodeAddress(data []byte)\<close>; \<open>json.Unmarshal\<close> (\<open>None\<close> when it
  fails) and \<open>net.ParseIP\<close> (\<open>None\<close> for nil) are parameters.\<close>

definition decodeAddress ::
  "('d \<Rightarrow> desc option) \<Rightarrow> (string \<Rightarrow> net_IP option) \<Rightarrow> 'd \<Rightarrow> udp_error + addr" where
  "decodeAddress json_Unmarshal ParseIP data =
     (case json_Unmarshal data of
        None \<Rightarrow> Inl ErrInvalidAddr
      | Some d \<Rightarrow>
          (case ParseIP (desc_IP d) of
             None \<Rightarrow> Inl ErrInvalidAddr
           | Some ip \<Rightarrow>
               if IsUnspecified ip then Inl ErrInvalidAddr
               else if desc_Port d \<le> 0 \<or> desc_Port d \<ge> 65535 then Inl ErrInvalidAddr
               else Inr \<lparr>addr_hn = [], addr_net = desc_Type d, addr_IP = ip,
                         addr_Port = desc_Port d, addr_Zone = []\<rparr>))"

text \<open>\<open>func (a *addr) Equal(x transports.Addr)\<close>, for an \<open>x\<close> that is an
  \<open>addr\<close>.\<close>

definition Equal :: "addr \<Rightarrow> addr \<Rightarrow> bool" where
  "Equal a b =
     (if \<not> IP_Equal (addr_IP a) (addr_IP b) then False
      else if addr_Port a \<noteq> addr_Port b then False
      else True)"


section \<open>Peers and their channels (package telehash, peer_t)\<close>

text \<open>
  Modelled from the spec: the packet type \<open>pkt_t\<close>, its header and the optional
  sequence number are not among the sources. The header has the channel id \<open>c\<close>, the
  \<open>type\<close> and a \<open>seq\<close> that is set or not.
\<close>

record pkt_hdr =
  hdr_C :: string
  hdr_Type :: string
  hdr_Seq :: "int option"

definition seq_IsSet :: "int option \<Rightarrow> bool" where
  "seq_IsSet s = (s \<noteq> None)"

definition seq_Get :: "int option \<Rightarrow> int" where
  "seq_Get s = (case s of None \<Rightarrow> 0 | Some n \<Rightarrow> n)"

record 'a pkt_t =
  pkt_hdr :: pkt_hdr
  pkt_addr :: 'a
  pkt_body :: "byte list"

text \<open>\<open>type peer_t struct\<close>: the address and the channel table (the switch, the
  line, the timestamps, the lock and the logger are left out).\<close>

record ('a, 'ch) peer_t =
  peer_addr :: 'a
  peer_channels :: "string \<rightharpoonup> 'ch"

datatype 'e pkt_error = errInvalidPkt | channel_error 'e

text \<open>
  \<open>func (p *peer_t) make_channel(id, typ, initiator)\<close>. The package-level constructor
  \<open>make_channel\<close> and the field \<open>channel_id\<close> of a channel are not among the
  sources and are parameters.
\<close>

definition peer_make_channel ::
  "(string \<Rightarrow> string \<Rightarrow> bool \<Rightarrow> 'e + 'ch) \<Rightarrow> ('ch \<Rightarrow> string) \<Rightarrow> ('a, 'ch) peer_t \<Rightarrow>
   string \<Rightarrow> string \<Rightarrow> bool \<Rightarrow> 'e + 'ch \<times> ('a, 'ch) peer_t" where
  "peer_make_channel make_channel channel_id p ident typ initiator =
     (case make_channel ident typ initiator of
        Inl err \<Rightarrow> Inl err
      | Inr channel \<Rightarrow>
          Inr (channel, p\<lparr>peer_channels := (peer_channels p)(channel_id channel \<mapsto> channel)\<rparr>))"

text \<open>
  \<open>func (p *peer_t) push_rcv_pkt(pkt)\<close>. The channel's own \<open>push_rcv_pkt\<close> is not
  among the sources and is a parameter that gives its error, or none, and the channel
  after it. The table holds the channel a pointer of the source points to, so the
  channel after the push is stored back. The result is the error returned, or none, the
  peer, and the channels whose user handler was started.
\<close>

definition push_rcv_pkt ::
  "(string \<Rightarrow> string \<Rightarrow> bool \<Rightarrow> 'e + 'ch) \<Rightarrow> ('ch \<Rightarrow> string) \<Rightarrow>
   ('ch \<Rightarrow> 'a pkt_t \<Rightarrow> 'e option \<times> 'ch) \<Rightarrow> ('a, 'ch) peer_t \<Rightarrow> 'a pkt_t \<Rightarrow>
   'e pkt_error option \<times> ('a, 'ch) peer_t \<times> string list" where
  "push_rcv_pkt make_channel channel_id channel_push_rcv_pkt p pkt0 =
     (let pkt = pkt0\<lparr>pkt_addr := peer_addr p\<rparr>
      in if hdr_C (pkt_hdr pkt) = [] then (Some errInvalidPkt, p, [])
         else
           (case peer_channels p (hdr_C (pkt_hdr pkt)) of
              Some channel \<Rightarrow>
                (let (err, channel') = channel_push_rcv_pkt channel pkt
                 in (map_option channel_error err,
                     p\<lparr>peer_channels := (peer_channels p)(hdr_C (pkt_hdr pkt) \<mapsto> channel')\<rparr>,
                     []))
            | None \<Rightarrow>
                if seq_IsSet (hdr_Seq (pkt_hdr pkt)) \<and> seq_Get (hdr_Seq (pkt_hdr pkt)) = 0 then
                  if hdr_Type (pkt_hdr pkt) = [] then (Some errInvalidPkt, p, [])
                  else
                    (case peer_make_channel make_channel channel_id p
                            (hdr_C (pkt_hdr pkt)) (hdr_Type (pkt_hdr pkt)) False of
                       Inl err \<Rightarrow> (Some (channel_error err), p, [])
                     | Inr (channel, p1) \<Rightarrow>
                         (let (err, channel') = channel_push_rcv_pkt channel pkt;
                              p2 = p1\<lparr>peer_channels :=
                                       (peer_channels p1)(channel_id channel \<mapsto> channel')\<rparr>
                          in case err of
                               Some e \<Rightarrow> (Some (channel_error e), p2, [])
                             | None \<Rightarrow> (None, p2, [channel_id channel])))
                else (Some errInvalidPkt, p, [])))"


section \<open>Values for the examples\<close>

text \<open>
  The parameters of the models at the inputs of the examples below. A token is read
  after the two length bytes of a line frame and after the length bytes and the
  cipher-set id of a handshake frame.
\<close>

definition example_token :: Token where
  "example_token = [1, 2, 3, 4, 5, 6, 7, 8, 9, 10, 11, 12, 13, 14, 15, 16]"

definition example_ExtractToken :: "byte list \<Rightarrow> Token" where
  "example_ExtractToken buf =
     (if take 2 buf = [0, 1] then take 16 (drop 3 buf) else take 16 (drop 2 buf))"

text \<open>A stand-in for SHA-256 and one for the derivation of the hashname.\<close>

definition example_SHA256 :: "byte list \<Rightarrow> byte list" where
  "example_SHA256 key = map (\<lambda>b. b + 1) key"

definition example_FromIntermediates :: "Parts \<Rightarrow> string + string" where
  "example_FromIntermediates ps =
     (case ps 58 of None \<Rightarrow> Inl ''no parts'' | Some part \<Rightarrow> Inr (''hn-'' @ part))"

text \<open>What the JSON and IP functions of the Go library give at the addresses of the
  examples.\<close>

definition example_json_Marshal :: "desc \<Rightarrow> string" where
  \<open>example_json_Marshal d =
     (if d = \<lparr>desc_Type = ''udp4'', desc_IP = ''1.2.3.4'', desc_Port = 65535\<rparr>
      then ''{"type":"udp4","ip":"1.2.3.4","port":65535}''
      else if d = \<lparr>desc_Type = ''udp4'', desc_IP = ''1.2.3.4'', desc_Port = 4242\<rparr>
      then ''{"type":"udp4","ip":"1.2.3.4","port":4242}''
      else [])\<close>

definition example_json_Unmarshal :: "string \<Rightarrow> desc option" where
  \<open>example_json_Unmarshal data =
     (if data = ''{"type":"udp4","ip":"1.2.3.4","port":65535}''
      then Some \<lparr>desc_Type = ''udp4'', desc_IP = ''1.2.3.4'', desc_Port = 65535\<rparr>
      else if data = ''{"type":"udp4","ip":"1.2.3.4","port":4242}''
      then Some \<lparr>desc_Type = ''udp4'', desc_IP = ''1.2.3.4'', desc_Port = 4242\<rparr>
      else None)\<close>

definition example_IP_String :: "net_IP \<Rightarrow> string" where
  "example_IP_String ip = (if To4 ip = Some [1, 2, 3, 4] then ''1.2.3.4'' else ''?'')"

definition example_ParseIP :: "string \<Rightarrow> net_IP option" where
  "example_ParseIP s = (if s = ''1.2.3.4'' then Some (v4InV6Prefix @ [1, 2, 3, 4]) else None)"

text \<open>A destination network given by the leading bytes of its IPv4 addresses.\<close>

definition example_Contains :: "net_IP \<Rightarrow> net_IP \<Rightarrow> bool" where
  "example_Contains prefix ip =
     (case To4 ip of None \<Rightarrow> False | Some ip4 \<Rightarrow> take (length prefix) ip4 = prefix)"

text \<open>A channel that keeps the packets pushed to it, and its constructor, which fails
  only when it has to make up an id.\<close>

record example_channel =
  example_channel_id :: string
  example_channel_type :: string
  example_initiator :: bool
  example_rcv_buf :: "string pkt_t list"

definition example_make_channel :: "string \<Rightarrow> string \<Rightarrow> bool \<Rightarrow> string + example_channel" where
  "example_make_channel ident typ ini =
     (if ident = [] then Inl ''no random bytes for a channel id''
      else Inr \<lparr>example_channel_id = ident, example_channel_type = typ, example_initiator = ini,
                example_rcv_buf = []\<rparr>)"

text \<open>A constructor that refuses every channel.\<close>

definition example_refusing_make_channel ::
  "string \<Rightarrow> string \<Rightarrow> bool \<Rightarrow> string + example_channel" where
  "example_refusing_make_channel ident typ ini = Inl ''too many channels''"

definition example_channel_push ::
  "example_channel \<Rightarrow> string pkt_t \<Rightarrow> string option \<times> example_channel" where
  "example_channel_push ch pkt = (None, ch\<lparr>example_rcv_buf := example_rcv_buf ch @ [pkt]\<rparr>)"


section \<open>Properties of IPv4 network paths\<close>

text \<open>The value of a Go \<open>int\<close> that is an integer cut to 64 bits is that integer
  exactly when the integer is in the range of the type.\<close>

lemma sint_go_int_eq_iff:
  fixes w :: go_int
  assumes "w = word_of_int k"
  shows "(sint w = k) = (- (2 ^ 63) \<le> k \<and> k < 2 ^ 63)"
  using assms by (simp add: sint_sbintrunc' signed_take_bit_int_eq_self_iff)

lemma Priority_word:
  "Priority n = word_of_int (category_base (cat n) + sint (Get (priority_delta n)))"
  by (cases "cat n") (simp_all add: Priority_def category_base_def)

lemma Break_word:
  "priority_delta (Break n)
     = word_of_int (sint (priority_delta n) - (3 + sint (Priority n)))"
  by (simp add: Break_def Add_def)

lemma Demote_word:
  "priority_delta (Demote n) = word_of_int (sint (priority_delta n) - 1)"
  by (simp add: Demote_def Add_def)

text \<open>
  C4, as stated: the priority of every IPv4 path is its category base (loopback 8, LAN 6,
  WAN 4, relay 1) plus the dynamic delta. It fails for a path whose category is none of
  loopback, LAN and WAN: the source scores it 0, which is none of the four bases, and no
  IPv4 path scores 1. It also fails as a sum of integers where Go's addition wraps
  around: a loopback path whose delta is the largest \<open>int\<close> has a negative priority.
\<close>

theorem Priority_relay_base_counterexample:
  "sint (Priority \<lparr>cat = ip_unknown, IP = [10, 0, 0, 1], Port = 4242, hash = 0,
                    priority_delta = 0\<rparr>) = 0
   \<and> sint (Priority \<lparr>cat = ip_unknown, IP = [10, 0, 0, 1], Port = 4242, hash = 0,
                    priority_delta = 0\<rparr>)
       \<noteq> spec_category_base ip_unknown + sint (Get 0)
   \<and> sint (Priority \<lparr>cat = ip_unknown, IP = [10, 0, 0, 1], Port = 4242, hash = 0,
                    priority_delta = 0\<rparr>)
         - sint (Get 0) \<notin> {8, 6, 4, 1}
   \<and> sint (Priority \<lparr>cat = ip_localhost, IP = [127, 0, 0, 1], Port = 4242, hash = 0,
                      priority_delta = 9223372036854775807\<rparr>) = - 9223372036854775801
   \<and> sint (Priority \<lparr>cat = ip_localhost, IP = [127, 0, 0, 1], Port = 4242, hash = 0,
                      priority_delta = 9223372036854775807\<rparr>)
       \<noteq> spec_category_base ip_localhost + sint (Get 9223372036854775807)"
  by (simp add: Priority_def spec_category_base_def Get_def)

text \<open>
  C4, amended: the priority of every IPv4 path is its category base plus the dynamic
  delta in Go's \<open>int\<close> arithmetic, where the bases are loopback 8, LAN 6, WAN 4 and
  0 for every other category; it is their sum as integers exactly when that sum does not
  exceed the largest \<open>int\<close>.
\<close>

theorem Priority_category_base:
  "Priority n = word_of_int (category_base (cat n)) + Get (priority_delta n)
   \<and> (sint (Priority n) = category_base (cat n) + sint (Get (priority_delta n)))
      = (category_base (cat n) + sint (Get (priority_delta n)) < 2 ^ 63)"
proof -
  have lo: "- (2 ^ 63) \<le> category_base (cat n) + sint (Get (priority_delta n))"
    using sint_ge [of "Get (priority_delta n)"]
    by (cases "cat n") (simp_all add: category_base_def)
  have "Priority n = word_of_int (category_base (cat n)) + Get (priority_delta n)"
    by (cases "cat n") (simp_all add: Priority_def category_base_def)
  moreover have "(sint (Priority n) = category_base (cat n) + sint (Get (priority_delta n)))
      = (category_base (cat n) + sint (Get (priority_delta n)) < 2 ^ 63)"
    using sint_go_int_eq_iff [OF Priority_word, of n] lo by simp
  ultimately show ?thesis by simp
qed

text \<open>
  C5, as stated: for every starting delta, Demote lowers the delta by exactly 1 and Break
  lowers it by exactly 3 plus the current priority. It fails where Go's arithmetic wraps
  around: Demote takes the smallest \<open>int\<close> to the largest, and on a loopback path
  whose delta is the largest \<open>int\<close> (so that Priority is negative) Break leaves the
  delta -11.
\<close>

theorem priority_delta_wraps_counterexample:
  "sint (priority_delta \<lparr>cat = ip_lan, IP = [10, 0, 0, 1], Port = 4242, hash = 0,
            priority_delta = - 9223372036854775808\<rparr>) = - 9223372036854775808
   \<and> sint (priority_delta (Demote \<lparr>cat = ip_lan, IP = [10, 0, 0, 1], Port = 4242, hash = 0,
            priority_delta = - 9223372036854775808\<rparr>)) = 9223372036854775807
   \<and> sint (priority_delta (Demote \<lparr>cat = ip_lan, IP = [10, 0, 0, 1], Port = 4242, hash = 0,
            priority_delta = - 9223372036854775808\<rparr>))
       \<noteq> sint (priority_delta \<lparr>cat = ip_lan, IP = [10, 0, 0, 1], Port = 4242, hash = 0,
            priority_delta = - 9223372036854775808\<rparr>) - 1
   \<and> sint (priority_delta \<lparr>cat = ip_localhost, IP = [127, 0, 0, 1], Port = 4242, hash = 0,
            priority_delta = 9223372036854775807\<rparr>) = 9223372036854775807
   \<and> sint (Priority \<lparr>cat = ip_localhost, IP = [127, 0, 0, 1], Port = 4242, hash = 0,
            priority_delta = 9223372036854775807\<rparr>) = - 9223372036854775801
   \<and> sint (priority_delta (Break \<lparr>cat = ip_localhost, IP = [127, 0, 0, 1], Port = 4242,
            hash = 0, priority_delta = 9223372036854775807\<rparr>)) = - 11
   \<and> sint (priority_delta (Break \<lparr>cat = ip_localhost, IP = [127, 0, 0, 1], Port = 4242,
            hash = 0, priority_delta = 9223372036854775807\<rparr>))
       \<noteq> sint (priority_delta \<lparr>cat = ip_localhost, IP = [127, 0, 0, 1], Port = 4242, hash = 0,
            priority_delta = 9223372036854775807\<rparr>)
         - (3 + sint (Priority \<lparr>cat = ip_localhost, IP = [127, 0, 0, 1], Port = 4242, hash = 0,
            priority_delta = 9223372036854775807\<rparr>))"
  by (simp add: Demote_def Break_def Priority_def Get_def Add_def)

text \<open>
  C5, amended: for every IPv4 path and every delta, ResetPriority sets the delta to 0,
  Demote lowers it by 1 and Break lowers it by 3 plus the current priority in Go's
  \<open>int\<close> arithmetic, and the priority right after Break is -3. As integers, Demote
  lowers the delta by exactly 1 exactly when the delta is not the smallest \<open>int\<close>,
  and Break lowers it by exactly 3 plus the priority exactly when that difference is in
  the range of \<open>int\<close>. None of the three changes another field.
\<close>

theorem priority_delta_updates:
  "priority_delta (ResetPriority n) = 0
   \<and> priority_delta (Demote n) = priority_delta n - 1
   \<and> priority_delta (Break n) = priority_delta n - (3 + Priority n)
   \<and> Priority (Break n) = - 3
   \<and> sint (Priority (Break n)) = - 3
   \<and> (sint (priority_delta (Demote n)) = sint (priority_delta n) - 1)
      = (sint (priority_delta n) \<noteq> - (2 ^ 63))
   \<and> (sint (priority_delta (Break n)) = sint (priority_delta n) - (3 + sint (Priority n)))
      = (- (2 ^ 63) \<le> sint (priority_delta n) - (3 + sint (Priority n))
         \<and> sint (priority_delta n) - (3 + sint (Priority n)) < 2 ^ 63)
   \<and> ResetPriority n = n\<lparr>priority_delta := 0\<rparr>
   \<and> Demote n = n\<lparr>priority_delta := priority_delta n - 1\<rparr>
   \<and> Break n = n\<lparr>priority_delta := priority_delta n - (3 + Priority n)\<rparr>"
proof -
  have b3: "Priority (Break n) = - 3"
    by (cases "cat n") (simp_all add: Break_def Priority_def Get_def Add_def)
  have d: "(sint (priority_delta (Demote n)) = sint (priority_delta n) - 1)
      = (sint (priority_delta n) \<noteq> - (2 ^ 63))"
    using sint_go_int_eq_iff [OF Demote_word, of n] sint_ge [of "priority_delta n"]
      sint_lt [of "priority_delta n"]
    by auto
  have b: "(sint (priority_delta (Break n)) = sint (priority_delta n) - (3 + sint (Priority n)))
      = (- (2 ^ 63) \<le> sint (priority_delta n) - (3 + sint (Priority n))
         \<and> sint (priority_delta n) - (3 + sint (Priority n)) < 2 ^ 63)"
    using sint_go_int_eq_iff [OF Break_word, of n] by simp
  have rest: "priority_delta (ResetPriority n) = 0
   \<and> priority_delta (Demote n) = priority_delta n - 1
   \<and> priority_delta (Break n) = priority_delta n - (3 + Priority n)
   \<and> ResetPriority n = n\<lparr>priority_delta := 0\<rparr>
   \<and> Demote n = n\<lparr>priority_delta := priority_delta n - 1\<rparr>
   \<and> Break n = n\<lparr>priority_delta := priority_delta n - (3 + Priority n)\<rparr>"
    by (simp add: ResetPriority_def Demote_def Break_def Add_def Reset_def)
  from b3 have "sint (Priority (Break n)) = - 3" by simp
  with b3 d b rest show ?thesis by simp
qed

text \<open>
  C9: an IPv4 path asks for the NAT-breaker keepalive exactly when its category is WAN;
  a loopback, LAN or other path never does.
\<close>

theorem SendNatBreaker_iff_wan:
  "SendNatBreaker n = (cat n = ip_wan)
   \<and> SendNatBreaker (n\<lparr>cat := ip_wan\<rparr>)
   \<and> \<not> SendNatBreaker (n\<lparr>cat := ip_localhost\<rparr>)
   \<and> \<not> SendNatBreaker (n\<lparr>cat := ip_lan\<rparr>)
   \<and> \<not> SendNatBreaker (n\<lparr>cat := ip_unknown\<rparr>)"
  by (simp add: SendNatBreaker_def)


section \<open>Properties of the bridge module\<close>

subsection \<open>Routes of a closed exchange\<close>

text \<open>What each loop leaves in the two tables, token by token.\<close>

lemma range_packetRoutes_lookup:
  "map_of (packetRoutes (range_packetRoutes ks e md)) t =
     (if t \<in> set ks \<and> map_of (packetRoutes md) t = Some e then None
      else map_of (packetRoutes md) t)
   \<and> map_of (handshakeRoutes (range_packetRoutes ks e md)) t =
     (if t \<in> set ks \<and> map_of (packetRoutes md) t = Some e then None
      else map_of (handshakeRoutes md) t)"
proof (induction ks arbitrary: md)
  case Nil
  then show ?case by simp
next
  case (Cons k ks)
  show ?case
    by (simp add: Cons.IH delete_conv split: option.splits)
qed

lemma range_handshakeRoutes_lookup:
  "map_of (packetRoutes (range_handshakeRoutes ks e md)) t =
     (if t \<in> set ks \<and> map_of (handshakeRoutes md) t = Some e then None
      else map_of (packetRoutes md) t)
   \<and> map_of (handshakeRoutes (range_handshakeRoutes ks e md)) t =
     (if t \<in> set ks \<and> map_of (handshakeRoutes md) t = Some e then None
      else map_of (handshakeRoutes md) t)"
proof (induction ks arbitrary: md)
  case Nil
  then show ?case by simp
next
  case (Cons k ks)
  show ?case
    by (simp add: Cons.IH delete_conv split: option.splits)
qed

lemma key_in_map_of: "t \<in> fst ` set al \<longleftrightarrow> map_of al t \<noteq> None"
  by (simp add: map_of_eq_None_iff)

lemma on_exchange_closed_lookup:
  "map_of (packetRoutes (on_exchange_closed e md)) t =
     (if map_of (packetRoutes md) t = Some e \<or> map_of (handshakeRoutes md) t = Some e
      then None else map_of (packetRoutes md) t)
   \<and> map_of (handshakeRoutes (on_exchange_closed e md)) t =
     (if map_of (packetRoutes md) t = Some e \<or> map_of (handshakeRoutes md) t = Some e
      then None else map_of (handshakeRoutes md) t)"
proof -
  define md1 where "md1 = range_packetRoutes (map fst (packetRoutes md)) e md"
  have p1: "map_of (packetRoutes md1) t =
      (if map_of (packetRoutes md) t = Some e then None else map_of (packetRoutes md) t)"
    unfolding md1_def by (simp add: range_packetRoutes_lookup key_in_map_of)
  have h1: "map_of (handshakeRoutes md1) t =
      (if map_of (packetRoutes md) t = Some e then None else map_of (handshakeRoutes md) t)"
    unfolding md1_def by (simp add: range_packetRoutes_lookup key_in_map_of)
  have p2: "map_of (packetRoutes (range_handshakeRoutes (map fst (handshakeRoutes md1)) e md1)) t =
      (if map_of (handshakeRoutes md1) t = Some e then None else map_of (packetRoutes md1) t)"
    by (simp add: range_handshakeRoutes_lookup key_in_map_of)
  have h2: "map_of (handshakeRoutes (range_handshakeRoutes (map fst (handshakeRoutes md1)) e md1)) t =
      (if map_of (handshakeRoutes md1) t = Some e then None else map_of (handshakeRoutes md1) t)"
    by (simp add: range_handshakeRoutes_lookup key_in_map_of)
  have oc: "on_exchange_closed e md = range_handshakeRoutes (map fst (handshakeRoutes md1)) e md1"
    by (simp add: on_exchange_closed_def md1_def Let_def)
  show ?thesis
    unfolding oc p2 h2 p1 h1 by simp
qed

text \<open>
  C6: after the module has processed the closing of exchange X, no token of the
  packet-route table and none of the handshake-route table maps to X; a token whose
  packet route or whose handshake route was X has no entry in either table, and every
  other token keeps its entries.
\<close>

theorem on_exchange_closed_removes_routes:
  "map_of (packetRoutes (on_exchange_closed X md)) token \<noteq> Some X
   \<and> map_of (handshakeRoutes (on_exchange_closed X md)) token \<noteq> Some X
   \<and> (map_of (packetRoutes md) token = Some X \<or> map_of (handshakeRoutes md) token = Some X \<longrightarrow>
        map_of (packetRoutes (on_exchange_closed X md)) token = None
        \<and> map_of (handshakeRoutes (on_exchange_closed X md)) token = None)
   \<and> (map_of (packetRoutes md) token \<noteq> Some X \<and> map_of (handshakeRoutes md) token \<noteq> Some X \<longrightarrow>
        map_of (packetRoutes (on_exchange_closed X md)) token = map_of (packetRoutes md) token
        \<and> map_of (handshakeRoutes (on_exchange_closed X md)) token = map_of (handshakeRoutes md) token)"
  by (simp add: on_exchange_closed_lookup)

text \<open>
  C6 at three routes: token 1 from exchange 1 to 2, token 2 from exchange 2 to 1, token 3
  from exchange 2 to 3. Closing exchange 1 leaves the route of token 3 alone.
\<close>

theorem on_exchange_closed_removes_routes_witness:
  "map_of (packetRoutes (on_exchange_closed (Exchange 1)
      (RouteToken [3] (Exchange 2) (Exchange 3)
        (RouteToken [2] (Exchange 2) (Exchange 1)
          (RouteToken [1] (Exchange 1) (Exchange 2) newBridge))))) [2] = None
   \<and> map_of (handshakeRoutes (on_exchange_closed (Exchange 1)
      (RouteToken [3] (Exchange 2) (Exchange 3)
        (RouteToken [2] (Exchange 2) (Exchange 1)
          (RouteToken [1] (Exchange 1) (Exchange 2) newBridge))))) [2] = None
   \<and> on_exchange_closed (Exchange 1)
      (RouteToken [3] (Exchange 2) (Exchange 3)
        (RouteToken [2] (Exchange 2) (Exchange 1)
          (RouteToken [1] (Exchange 1) (Exchange 2) newBridge)))
      = \<lparr>packetRoutes = [([3], Exchange 2)], handshakeRoutes = [([3], Exchange 3)]\<rparr>"
  using on_exchange_closed_removes_routes [of "Exchange 1"
      "RouteToken [3] (Exchange 2) (Exchange 3)
        (RouteToken [2] (Exchange 2) (Exchange 1)
          (RouteToken [1] (Exchange 1) (Exchange 2) newBridge))" "[2]"]
  by (simp add: RouteToken_def newBridge_def on_exchange_closed_def)

subsection \<open>The read loop\<close>

lemma is_handshake_True: "take 2 buf = [0, 1] \<Longrightarrow> is_handshake buf = Some True"
  by (cases buf rule: is_handshake.cases) auto

lemma is_handshake_False:
  "buf \<noteq> [] \<Longrightarrow> buf \<noteq> [0] \<Longrightarrow> take 2 buf \<noteq> [0, 1] \<Longrightarrow> is_handshake buf = Some False"
  by (cases buf rule: is_handshake.cases) auto

lemma is_handshake_None: "buf = [] \<or> buf = [0] \<Longrightarrow> is_handshake buf = None"
  by auto

text \<open>A frame the loop returns is one the wrapped transport read, and its token has no
  packet route.\<close>

lemma ReadMessage_returns_unrouted:
  "ReadMessage ExtractToken ActivePath nil_ActivePath md reads sent
     = (ReturnFrame buf src, sent') \<Longrightarrow>
   ReadOk buf src \<in> set reads \<and> go_index (packetRoutes md) (ExtractToken buf) = NilExchange"
proof (induction reads arbitrary: sent)
  case Nil
  then show ?case by simp
next
  case (Cons r reads)
  show ?case
  proof (cases r)
    case (ReadErr n a e)
    with Cons.prems show ?thesis by simp
  next
    case (ReadOk b a)
    with Cons.prems Cons.IH show ?thesis
      by (auto simp: lookupToken_def Let_def split: if_splits option.splits Exchange_ptr.splits)
  qed
qed

text \<open>
  C1: a frame whose token has no packet route is returned to the caller as it was read,
  and whatever frame a call returns was read from the wrapped transport and has no packet
  route. A frame whose token has a packet route is forwarded unchanged to the active
  path of the exchange of the packet route when it does not start with 0x00 0x01 (and is
  not empty and not the single byte 0), and to the active path of the exchange of the
  handshake route when it starts with 0x00 0x01 and its token has a handshake route;
  then the loop goes on with the next read. The source misses two cases. For a frame
  that starts with 0x00 0x01 and whose token has a packet route and no handshake route,
  the state RouteToken leaves for a nil target, it calls ActivePath on the nil exchange:
  the call panics, or the frame goes to whatever address the call gives, and in neither
  case to an exchange of a route. For an empty frame and for the single byte 0 with a
  packet route, the test of the first two bytes reads past the end of the frame.
\<close>

theorem ReadMessage_bridge:
  "(go_index (packetRoutes md) (ExtractToken buf) = NilExchange \<longrightarrow>
      ReadMessage ExtractToken ActivePath nil_ActivePath md (ReadOk buf src # reads) sent
        = (ReturnFrame buf src, sent))
   \<and> (go_index (packetRoutes md) (ExtractToken buf) = Exchange s
        \<and> buf \<noteq> [] \<and> buf \<noteq> [0] \<and> take 2 buf \<noteq> [0, 1] \<longrightarrow>
      ReadMessage ExtractToken ActivePath nil_ActivePath md (ReadOk buf src # reads) sent
        = ReadMessage ExtractToken ActivePath nil_ActivePath md reads
            (sent @ [(buf, ActivePath s)]))
   \<and> (go_index (packetRoutes md) (ExtractToken buf) = Exchange s
        \<and> take 2 buf = [0, 1]
        \<and> go_index (handshakeRoutes md) (ExtractToken buf) = Exchange t \<longrightarrow>
      ReadMessage ExtractToken ActivePath nil_ActivePath md (ReadOk buf src # reads) sent
        = ReadMessage ExtractToken ActivePath nil_ActivePath md reads
            (sent @ [(buf, ActivePath t)]))
   \<and> (go_index (packetRoutes md) (ExtractToken buf) = Exchange s
        \<and> take 2 buf = [0, 1]
        \<and> go_index (handshakeRoutes md) (ExtractToken buf) = NilExchange \<longrightarrow>
      ReadMessage ExtractToken ActivePath nil_ActivePath md (ReadOk buf src # reads) sent
        = (case nil_ActivePath of
             None \<Rightarrow> (Panic NilDereference, sent)
           | Some dst \<Rightarrow>
               ReadMessage ExtractToken ActivePath nil_ActivePath md reads
                 (sent @ [(buf, dst)])))
   \<and> (go_index (packetRoutes md) (ExtractToken buf) = Exchange s
        \<and> (buf = [] \<or> buf = [0]) \<longrightarrow>
      ReadMessage ExtractToken ActivePath nil_ActivePath md (ReadOk buf src # reads) sent
        = (Panic IndexOutOfRange, sent))
   \<and> (ReadMessage ExtractToken ActivePath nil_ActivePath md reads sent
        = (ReturnFrame b a, sent') \<longrightarrow>
        ReadOk b a \<in> set reads
        \<and> go_index (packetRoutes md) (ExtractToken b) = NilExchange)"
proof -
  have 1: "go_index (packetRoutes md) (ExtractToken buf) = NilExchange \<longrightarrow>
      ReadMessage ExtractToken ActivePath nil_ActivePath md (ReadOk buf src # reads) sent
        = (ReturnFrame buf src, sent)"
    by (simp add: lookupToken_def)
  have 2: "go_index (packetRoutes md) (ExtractToken buf) = Exchange s
        \<and> buf \<noteq> [] \<and> buf \<noteq> [0] \<and> take 2 buf \<noteq> [0, 1] \<longrightarrow>
      ReadMessage ExtractToken ActivePath nil_ActivePath md (ReadOk buf src # reads) sent
        = ReadMessage ExtractToken ActivePath nil_ActivePath md reads
            (sent @ [(buf, ActivePath s)])"
    by (simp add: lookupToken_def is_handshake_False)
  have 3: "go_index (packetRoutes md) (ExtractToken buf) = Exchange s
        \<and> take 2 buf = [0, 1]
        \<and> go_index (handshakeRoutes md) (ExtractToken buf) = Exchange t \<longrightarrow>
      ReadMessage ExtractToken ActivePath nil_ActivePath md (ReadOk buf src # reads) sent
        = ReadMessage ExtractToken ActivePath nil_ActivePath md reads
            (sent @ [(buf, ActivePath t)])"
    by (simp add: lookupToken_def is_handshake_True)
  have 4: "go_index (packetRoutes md) (ExtractToken buf) = Exchange s
        \<and> take 2 buf = [0, 1]
        \<and> go_index (handshakeRoutes md) (ExtractToken buf) = NilExchange \<longrightarrow>
      ReadMessage ExtractToken ActivePath nil_ActivePath md (ReadOk buf src # reads) sent
        = (case nil_ActivePath of
             None \<Rightarrow> (Panic NilDereference, sent)
           | Some dst \<Rightarrow>
               ReadMessage ExtractToken ActivePath nil_ActivePath md reads
                 (sent @ [(buf, dst)]))"
    by (simp add: lookupToken_def is_handshake_True)
  have 5: "go_index (packetRoutes md) (ExtractToken buf) = Exchange s
        \<and> (buf = [] \<or> buf = [0]) \<longrightarrow>
      ReadMessage ExtractToken ActivePath nil_ActivePath md (ReadOk buf src # reads) sent
        = (Panic IndexOutOfRange, sent)"
    by (auto simp: lookupToken_def)
  have 6: "ReadMessage ExtractToken ActivePath nil_ActivePath md reads sent
        = (ReturnFrame b a, sent') \<longrightarrow>
        ReadOk b a \<in> set reads
        \<and> go_index (packetRoutes md) (ExtractToken b) = NilExchange"
    using ReadMessage_returns_unrouted
      [of ExtractToken ActivePath nil_ActivePath md reads sent b a sent']
    by blast
  from 1 2 3 4 5 6 show ?thesis by blast
qed

text \<open>
  C1 at a route for one token. With the route from exchange 1 to exchange 2, a line frame
  and a handshake frame with the token are forwarded to the paths of exchanges 1 and 2,
  the frame with another token is returned, and the frame behind it is not read. With
  the route from exchange 1 and a nil target, the handshake frame with the token is not
  forwarded: the call on the nil exchange panics.
\<close>

theorem ReadMessage_bridge_witness:
  "ReadMessage example_ExtractToken (\<lambda>ex. 100 + ex) None
     (RouteToken example_token (Exchange 1) (Exchange 2) newBridge)
     [ReadOk ([0, 0] @ example_token @ [170, 187]) (7::nat),
      ReadOk ([0, 1, 58] @ example_token @ [204]) 7,
      ReadOk ([0, 0] @ [9, 9, 9, 9, 9, 9, 9, 9, 9, 9, 9, 9, 9, 9, 9, 9] @ [221]) 8,
      ReadOk ([0, 0] @ example_token @ [238]) 7] []
   = (ReturnFrame ([0, 0] @ [9, 9, 9, 9, 9, 9, 9, 9, 9, 9, 9, 9, 9, 9, 9, 9] @ [221]) 8,
      [([0, 0] @ example_token @ [170, 187], 101),
       ([0, 1, 58] @ example_token @ [204], 102)])
   \<and> go_index (packetRoutes (RouteToken example_token (Exchange 1) NilExchange newBridge))
        (example_ExtractToken ([0, 1, 58] @ example_token @ [204])) = Exchange 1
   \<and> ReadMessage example_ExtractToken (\<lambda>ex. 100 + ex) None
        (RouteToken example_token (Exchange 1) NilExchange newBridge)
        [ReadOk ([0, 1, 58] @ example_token @ [204]) (7::nat)] []
      = (Panic NilDereference, [])"
  using ReadMessage_bridge [where md = "RouteToken example_token (Exchange 1) (Exchange 2) newBridge"
      and ExtractToken = example_ExtractToken and ActivePath = "\<lambda>ex. 100 + ex"
      and nil_ActivePath = None
      and buf = "[0, 0] @ example_token @ [170, 187]" and src = 7 and s = 1 and t = 2
      and reads = "[ReadOk ([0, 1, 58] @ example_token @ [204]) 7,
                    ReadOk ([0, 0] @ [9, 9, 9, 9, 9, 9, 9, 9, 9, 9, 9, 9, 9, 9, 9, 9] @ [221]) 8,
                    ReadOk ([0, 0] @ example_token @ [238]) 7]"
      and sent = "[]" and b = "[0, 0] @ [9, 9, 9, 9, 9, 9, 9, 9, 9, 9, 9, 9, 9, 9, 9, 9] @ [221]"
      and a = 8 and sent' = "[([0, 1, 58] @ example_token @ [204], 102)]"]
    ReadMessage_bridge [where md = "RouteToken example_token (Exchange 1) NilExchange newBridge"
      and ExtractToken = example_ExtractToken and ActivePath = "\<lambda>ex. 100 + ex"
      and nil_ActivePath = None
      and buf = "[0, 1, 58] @ example_token @ [204]" and src = 7 and s = 1 and t = 2
      and reads = "[]" and sent = "[]" and b = "[]" and a = 8 and sent' = "[]"]
  by (simp add: RouteToken_def newBridge_def example_ExtractToken_def example_token_def
      lookupToken_def go_index_def)


section \<open>Properties of address construction\<close>

lemma merged_parts_eq:
  "(case ps of None \<Rightarrow> Map.empty | Some p \<Rightarrow> p) ++ PartsFromKeys SHA256 ks
     = merged_parts SHA256 ks ps"
  by (rule ext) (simp add: merged_parts_def PartsFromKeys_def map_add_def split: option.splits)

lemma NewAddr_Inr:
  "NewAddr SHA256 FI ks ps as = Inr a \<Longrightarrow>
     dom ks \<noteq> {} \<and> as \<noteq> [] \<and> FI (merged_parts SHA256 ks ps) = Inr (hashname a)
     \<and> keys a = ks \<and> parts a = merged_parts SHA256 ks ps \<and> addrs a = as"
  by (auto simp: NewAddr_def merged_parts_eq Let_def split: if_splits sum.splits)

text \<open>
  C2: in every address that NewAddr constructs, the part of each cipher-set id of the key
  map is the hexadecimal SHA-256 intermediate of its key, whatever part the caller
  supplied for it, the caller's parts of the other ids are kept, and the hashname stored
  is the one derived from the resulting parts.
\<close>

theorem NewAddr_invariant:
  assumes "NewAddr SHA256 FromIntermediates ks ps as = Inr a"
  shows "(\<forall>csid key. ks csid = Some key \<longrightarrow>
            parts a csid = Some (hex_EncodeToString (SHA256 key)))
         \<and> (\<forall>csid. ks csid = None \<longrightarrow>
            parts a csid = (case ps of None \<Rightarrow> None | Some p \<Rightarrow> p csid))
         \<and> FromIntermediates (parts a) = Inr (hashname a)
         \<and> keys a = ks \<and> addrs a = as"
  using NewAddr_Inr [OF assms] by (simp add: merged_parts_def)

text \<open>
  C2 at one key with the id 0x3a and caller's parts for 0x1a and 0x3a: the stale part of
  0x3a is replaced and the part of 0x1a is kept.
\<close>

theorem NewAddr_invariant_witness:
  "NewAddr example_SHA256 example_FromIntermediates [58 \<mapsto> [0, 171, 255]]
      (Some [26 \<mapsto> ''0a0b'', 58 \<mapsto> ''stale'']) [''udp4:127.0.0.1:4242'']
     = Inr \<lparr>hashname = ''hn-01ac00'', keys = [58 \<mapsto> [0, 171, 255]],
            parts = [26 \<mapsto> ''0a0b'', 58 \<mapsto> ''01ac00''], addrs = [''udp4:127.0.0.1:4242'']\<rparr>
   \<and> parts \<lparr>hashname = ''hn-01ac00'', keys = [58 \<mapsto> [0, 171, 255]],
            parts = [26 \<mapsto> ''0a0b'', 58 \<mapsto> ''01ac00''], addrs = [''udp4:127.0.0.1:4242'']\<rparr> 58
       = Some (hex_EncodeToString (example_SHA256 [0, 171, 255]))"
proof -
  have run: "NewAddr example_SHA256 example_FromIntermediates [58 \<mapsto> [0, 171, 255]]
      (Some [26 \<mapsto> ''0a0b'', 58 \<mapsto> ''stale'']) [''udp4:127.0.0.1:4242'']
     = Inr \<lparr>hashname = ''hn-01ac00'', keys = [58 \<mapsto> [0, 171, 255]],
            parts = [26 \<mapsto> ''0a0b'', 58 \<mapsto> ''01ac00''], addrs = [''udp4:127.0.0.1:4242'']\<rparr>"
    apply (simp add: NewAddr_def Let_def example_FromIntermediates_def PartsFromKeys_def
        example_SHA256_def hex_EncodeToString_def hex_byte_def hex_digit_def map_add_def)
    apply (rule ext)
    apply (simp add: PartsFromKeys_def
        example_SHA256_def hex_EncodeToString_def hex_byte_def hex_digit_def map_add_def)
    done
  from NewAddr_invariant [OF run]
  have "[58 \<mapsto> [0, 171, 255::byte]] (58::CSID) = Some [0, 171, 255] \<longrightarrow>
       parts \<lparr>hashname = ''hn-01ac00'', keys = [58 \<mapsto> [0, 171, 255]],
            parts = [26 \<mapsto> ''0a0b'', 58 \<mapsto> ''01ac00''], addrs = [''udp4:127.0.0.1:4242'']\<rparr> 58
       = Some (hex_EncodeToString (example_SHA256 [0, 171, 255]))"
    by blast
  then have "parts \<lparr>hashname = ''hn-01ac00'', keys = [58 \<mapsto> [0, 171, 255]],
            parts = [26 \<mapsto> ''0a0b'', 58 \<mapsto> ''01ac00''], addrs = [''udp4:127.0.0.1:4242'']\<rparr> 58
       = Some (hex_EncodeToString (example_SHA256 [0, 171, 255]))"
    by simp
  with run show ?thesis by simp
qed

text \<open>
  C8, as stated: NewAddr fails only for an empty key set or an invalid key, and succeeds
  for every non-empty set of valid keys. It fails for a key set with which NewAddr
  succeeds once there is a transport address, when the list of addresses is empty.
\<close>

theorem NewAddr_no_address_counterexample:
  "dom [58 \<mapsto> [0, 171, 255::byte]] \<noteq> ({}::CSID set)
   \<and> NewAddr example_SHA256 example_FromIntermediates [58 \<mapsto> [0, 171, 255]] None
        [''udp4:127.0.0.1:4242'']
      = Inr \<lparr>hashname = ''hn-01ac00'', keys = [58 \<mapsto> [0, 171, 255]],
             parts = [58 \<mapsto> ''01ac00''], addrs = [''udp4:127.0.0.1:4242'']\<rparr>
   \<and> NewAddr example_SHA256 example_FromIntermediates [58 \<mapsto> [0, 171, 255]] None
        ([]::string list)
      = Inl ErrNoAddress"
  apply (simp add: NewAddr_def Let_def example_FromIntermediates_def PartsFromKeys_def
        example_SHA256_def hex_EncodeToString_def hex_byte_def hex_digit_def map_add_def)
  apply (rule ext)
  apply (simp add: PartsFromKeys_def
        example_SHA256_def hex_EncodeToString_def hex_byte_def hex_digit_def map_add_def)
  done

text \<open>
  C8, amended: NewAddr returns an error exactly when the key set is empty (ErrNoKeys),
  or the key set is not empty and the list of transport addresses is (ErrNoAddress), or
  neither is empty and the derivation of the hashname from the resulting parts fails
  (the error of the derivation); it succeeds exactly when the key set and the list of
  addresses are not empty and the derivation succeeds.
\<close>

theorem NewAddr_error_cases:
  "(NewAddr SHA256 FromIntermediates ks ps as = Inl e) =
     (dom ks = {} \<and> e = ErrNoKeys
      \<or> dom ks \<noteq> {} \<and> as = [] \<and> e = ErrNoAddress
      \<or> dom ks \<noteq> {} \<and> as \<noteq> [] \<and>
         (\<exists>err. FromIntermediates (merged_parts SHA256 ks ps) = Inl err
                \<and> e = FromIntermediates_error err))
   \<and> (\<exists>a. NewAddr SHA256 FromIntermediates ks ps as = Inr a) =
     (dom ks \<noteq> {} \<and> as \<noteq> [] \<and> (\<exists>h. FromIntermediates (merged_parts SHA256 ks ps) = Inr h))"
  by (cases "FromIntermediates (merged_parts SHA256 ks ps)")
     (auto simp: NewAddr_def merged_parts_eq Let_def)

text \<open>
  C8 at an empty key set, and at a key whose parts the derivation of the example
  rejects.
\<close>

theorem NewAddr_error_cases_witness:
  "NewAddr example_SHA256 example_FromIntermediates Map.empty None [''udp4:127.0.0.1:4242'']
     = Inl ErrNoKeys
   \<and> NewAddr example_SHA256 example_FromIntermediates [26 \<mapsto> [1::byte]] None
        [''udp4:127.0.0.1:4242'']
     = Inl (FromIntermediates_error ''no parts'')"
proof -
  have mp: "merged_parts example_SHA256 [26 \<mapsto> [1::byte]] None (58::CSID) = None"
    by (simp add: merged_parts_def)
  have "dom (Map.empty :: Keys) = {}" by simp
  with NewAddr_error_cases [of example_SHA256 example_FromIntermediates Map.empty None
      "[''udp4:127.0.0.1:4242'']" ErrNoKeys]
  have a: "NewAddr example_SHA256 example_FromIntermediates Map.empty None
      [''udp4:127.0.0.1:4242''] = Inl ErrNoKeys"
    by simp
  from NewAddr_error_cases [of example_SHA256 example_FromIntermediates "[26 \<mapsto> [1::byte]]" None
      "[''udp4:127.0.0.1:4242'']" "FromIntermediates_error ''no parts''"]
  have b: "NewAddr example_SHA256 example_FromIntermediates [26 \<mapsto> [1::byte]] None
        [''udp4:127.0.0.1:4242''] = Inl (FromIntermediates_error ''no parts'')"
    by (simp add: example_FromIntermediates_def mp)
  from a b show ?thesis by simp
qed


section \<open>Properties of the UDP transport\<close>

text \<open>
  C10, as stated: for a destination the transport accepts, WriteMessage returns
  io.ErrShortWrite exactly when fewer bytes than the payload were written. It fails when
  the socket reports an error: no byte of the two was written, and the error returned is
  the socket's.
\<close>

theorem WriteMessage_socket_error_counterexample:
  "WriteMessage example_Contains (\<lambda>p a. (0, Some ''sendto: network is unreachable''))
      \<lparr>transport_net = UDPv4, transport_dest = [10]\<rparr> [104, 105]
      (UDP_addr (Some \<lparr>addr_hn = [], addr_net = UDPv4, addr_IP = [10, 0, 0, 7],
                        addr_Port = 4242, addr_Zone = []\<rparr>))
     = (Some (SocketError ''sendto: network is unreachable''),
        [([104, 105], \<lparr>addr_hn = [], addr_net = UDPv4, addr_IP = [10, 0, 0, 7],
                        addr_Port = 4242, addr_Zone = []\<rparr>)])
   \<and> \<not> spec_WriteMessage_short_write (\<lambda>p a. (0, Some ''sendto: network is unreachable''))
        [104, 105]
        \<lparr>addr_hn = [], addr_net = UDPv4, addr_IP = [10, 0, 0, 7], addr_Port = 4242, addr_Zone = []\<rparr>
        (fst (WriteMessage example_Contains (\<lambda>p a. (0, Some ''sendto: network is unreachable''))
          \<lparr>transport_net = UDPv4, transport_dest = [10]\<rparr> [104, 105]
          (UDP_addr (Some \<lparr>addr_hn = [], addr_net = UDPv4, addr_IP = [10, 0, 0, 7],
                        addr_Port = 4242, addr_Zone = []\<rparr>))))"
  by (simp add: WriteMessage_def example_Contains_def To4_def UDPv4_def
      spec_WriteMessage_short_write_def)

text \<open>
  C10, amended: WriteMessage returns ErrInvalidAddr and hands nothing to the socket when
  the destination is not an address of the UDP transport, is of another network than the
  transport, or has an IP outside the destination network. Otherwise it hands the
  datagram to the socket and does not return ErrInvalidAddr: when the socket reports an
  error it returns that error, and when the socket reports none it returns
  io.ErrShortWrite exactly when the number of bytes written is not the length of the
  payload, and no error exactly when it is.
\<close>

theorem WriteMessage_results:
  "((\<forall>a. dst \<noteq> UDP_addr (Some a)) \<longrightarrow>
      WriteMessage Contains WriteToUDP t p dst = (Some ErrInvalidAddr, []))
   \<and> (addr_net a \<noteq> transport_net t \<or> \<not> Contains (transport_dest t) (addr_IP a) \<longrightarrow>
      WriteMessage Contains WriteToUDP t p (UDP_addr (Some a)) = (Some ErrInvalidAddr, []))
   \<and> (addr_net a = transport_net t \<and> Contains (transport_dest t) (addr_IP a) \<longrightarrow>
      snd (WriteMessage Contains WriteToUDP t p (UDP_addr (Some a))) = [(p, a)]
      \<and> fst (WriteMessage Contains WriteToUDP t p (UDP_addr (Some a))) \<noteq> Some ErrInvalidAddr
      \<and> (\<forall>n err. WriteToUDP p a = (n, Some err) \<longrightarrow>
            fst (WriteMessage Contains WriteToUDP t p (UDP_addr (Some a))) = Some (SocketError err))
      \<and> (\<forall>n. WriteToUDP p a = (n, None) \<longrightarrow>
            (fst (WriteMessage Contains WriteToUDP t p (UDP_addr (Some a))) = Some ErrShortWrite)
              = (n \<noteq> int (length p))
            \<and> (fst (WriteMessage Contains WriteToUDP t p (UDP_addr (Some a))) = None)
              = (n = int (length p))))"
proof -
  have 1: "(\<forall>a. dst \<noteq> UDP_addr (Some a)) \<longrightarrow>
      WriteMessage Contains WriteToUDP t p dst = (Some ErrInvalidAddr, [])"
    by (cases dst) (auto simp: WriteMessage_def split: option.splits)
  have 2: "addr_net a \<noteq> transport_net t \<or> \<not> Contains (transport_dest t) (addr_IP a) \<longrightarrow>
      WriteMessage Contains WriteToUDP t p (UDP_addr (Some a)) = (Some ErrInvalidAddr, [])"
    by (auto simp: WriteMessage_def)
  have 3: "addr_net a = transport_net t \<and> Contains (transport_dest t) (addr_IP a) \<longrightarrow>
      snd (WriteMessage Contains WriteToUDP t p (UDP_addr (Some a))) = [(p, a)]
      \<and> fst (WriteMessage Contains WriteToUDP t p (UDP_addr (Some a))) \<noteq> Some ErrInvalidAddr
      \<and> (\<forall>n err. WriteToUDP p a = (n, Some err) \<longrightarrow>
            fst (WriteMessage Contains WriteToUDP t p (UDP_addr (Some a))) = Some (SocketError err))
      \<and> (\<forall>n. WriteToUDP p a = (n, None) \<longrightarrow>
            (fst (WriteMessage Contains WriteToUDP t p (UDP_addr (Some a))) = Some ErrShortWrite)
              = (n \<noteq> int (length p))
            \<and> (fst (WriteMessage Contains WriteToUDP t p (UDP_addr (Some a))) = None)
              = (n = int (length p)))"
    by (cases "WriteToUDP p a") (auto simp: WriteMessage_def split: option.splits)
  from 1 2 3 show ?thesis by blast
qed

text \<open>
  C10 on a udp4 transport whose destination network is 10.0.0.0/8, with a socket that
  writes one byte of two: a short write to 10.0.0.7, and ErrInvalidAddr for 192.168.0.7
  and for an address of another transport.
\<close>

theorem WriteMessage_results_witness:
  "WriteMessage example_Contains (\<lambda>p a. (1, None))
      \<lparr>transport_net = UDPv4, transport_dest = [10]\<rparr> [104, 105]
      (UDP_addr (Some \<lparr>addr_hn = [], addr_net = UDPv4, addr_IP = [10, 0, 0, 7],
                        addr_Port = 4242, addr_Zone = []\<rparr>))
     = (Some ErrShortWrite,
        [([104, 105], \<lparr>addr_hn = [], addr_net = UDPv4, addr_IP = [10, 0, 0, 7],
                        addr_Port = 4242, addr_Zone = []\<rparr>)])
   \<and> WriteMessage example_Contains (\<lambda>p a. (1, None))
      \<lparr>transport_net = UDPv4, transport_dest = [10]\<rparr> [104, 105]
      (UDP_addr (Some \<lparr>addr_hn = [], addr_net = UDPv4, addr_IP = [192, 168, 0, 7],
                        addr_Port = 4242, addr_Zone = []\<rparr>))
     = (Some ErrInvalidAddr, [])
   \<and> WriteMessage example_Contains (\<lambda>p a. (1, None))
      \<lparr>transport_net = UDPv4, transport_dest = [10]\<rparr> [104, 105] (Other_addr ''relay'')
     = (Some ErrInvalidAddr, [])"
  using WriteMessage_results [where Contains = example_Contains and WriteToUDP = "\<lambda>p a. (1, None)"
      and t = "\<lparr>transport_net = UDPv4, transport_dest = [10]\<rparr>" and p = "[104, 105]"
      and dst = "Other_addr ''relay''"
      and a = "\<lparr>addr_hn = [], addr_net = UDPv4, addr_IP = [192, 168, 0, 7],
                        addr_Port = 4242, addr_Zone = []\<rparr>"]
    WriteMessage_results [where Contains = example_Contains and WriteToUDP = "\<lambda>p a. (1, None)"
      and t = "\<lparr>transport_net = UDPv4, transport_dest = [10]\<rparr>" and p = "[104, 105]"
      and dst = "Other_addr ''relay''"
      and a = "\<lparr>addr_hn = [], addr_net = UDPv4, addr_IP = [10, 0, 0, 7],
                        addr_Port = 4242, addr_Zone = []\<rparr>"]
  by (simp add: example_Contains_def To4_def UDPv4_def prod_eq_iff)

subsection \<open>The JSON form of an address\<close>

lemma IP_Equal_sym: "IP_Equal x y \<Longrightarrow> IP_Equal y x"
  by (auto simp: IP_Equal_def split: if_splits)

lemma IP_Equal_zero4_in_6:
  "IP_Equal x (v4InV6Prefix @ [0, 0, 0, 0]) \<longleftrightarrow>
     x = v4InV6Prefix @ [0, 0, 0, 0] \<or> x = [0, 0, 0, 0]"
  by (auto simp: IP_Equal_def v4InV6Prefix_def)

lemma IP_Equal_zero16:
  "IP_Equal x [0, 0, 0, 0, 0, 0, 0, 0, 0, 0, 0, 0, 0, 0, 0, 0] \<longleftrightarrow>
     x = [0, 0, 0, 0, 0, 0, 0, 0, 0, 0, 0, 0, 0, 0, 0, 0]"
  by (auto simp: IP_Equal_def v4InV6Prefix_def)

lemma IP_Equal_zero4:
  "IP_Equal x [0, 0, 0, 0] \<longleftrightarrow> x = v4InV6Prefix @ [0, 0, 0, 0] \<or> x = [0, 0, 0, 0]"
proof
  assume eq: "IP_Equal x [0, 0, 0, 0]"
  show "x = v4InV6Prefix @ [0, 0, 0, 0] \<or> x = [0, 0, 0, 0]"
  proof (cases "length x = 4")
    case True
    with eq show ?thesis by (simp add: IP_Equal_def)
  next
    case False
    with eq have "length x = 16" "take 12 x = v4InV6Prefix" "drop 12 x = [0, 0, 0, 0]"
      by (auto simp: IP_Equal_def split: if_splits)
    then have "x = v4InV6Prefix @ [0, 0, 0, 0]"
      by (metis append_take_drop_id)
    then show ?thesis by simp
  qed
next
  assume "x = v4InV6Prefix @ [0, 0, 0, 0] \<or> x = [0, 0, 0, 0]"
  then show "IP_Equal x [0, 0, 0, 0]"
    by (auto simp: IP_Equal_def v4InV6Prefix_def)
qed

lemma IsUnspecified_cases:
  "IsUnspecified x \<longleftrightarrow>
     x = v4InV6Prefix @ [0, 0, 0, 0] \<or> x = [0, 0, 0, 0]
     \<or> x = [0, 0, 0, 0, 0, 0, 0, 0, 0, 0, 0, 0, 0, 0, 0, 0]"
  by (auto simp: IsUnspecified_def IP_Equal_zero4_in_6 IP_Equal_zero16)

text \<open>An address equal to an unspecified address is unspecified.\<close>

lemma IsUnspecified_Equal:
  assumes "IP_Equal x y" and "IsUnspecified x"
  shows "IsUnspecified y"
proof -
  from assms(1) have yx: "IP_Equal y x" by (rule IP_Equal_sym)
  from assms(2) consider "x = v4InV6Prefix @ [0, 0, 0, 0]" | "x = [0, 0, 0, 0]"
    | "x = [0, 0, 0, 0, 0, 0, 0, 0, 0, 0, 0, 0, 0, 0, 0, 0]"
    by (auto simp: IsUnspecified_cases)
  then show ?thesis
  proof cases
    case 1
    with yx show ?thesis by (auto simp: IP_Equal_zero4_in_6 IsUnspecified_cases)
  next
    case 2
    with yx show ?thesis by (auto simp: IP_Equal_zero4 IsUnspecified_cases)
  next
    case 3
    with yx show ?thesis by (auto simp: IP_Equal_zero16 IsUnspecified_cases)
  qed
qed

text \<open>
  Marshalling then decoding an address whose IP is specified and whose port is between 1
  and 65534 gives an equal address, when the JSON library gives back the object it wrote
  and the IP library parses the text of an address to an equal address.
\<close>

lemma decodeAddress_MarshalJSON_below_65535:
  assumes "0 < addr_Port a" and "addr_Port a < 65535"
      and "\<not> IsUnspecified (addr_IP a)"
      and "json_Unmarshal (json_Marshal \<lparr>desc_Type = addr_net a, desc_IP = IP_String (addr_IP a),
              desc_Port = addr_Port a\<rparr>)
           = Some \<lparr>desc_Type = addr_net a, desc_IP = IP_String (addr_IP a),
              desc_Port = addr_Port a\<rparr>"
      and "ParseIP (IP_String (addr_IP a)) = Some ip" and "IP_Equal (addr_IP a) ip"
    shows "decodeAddress json_Unmarshal ParseIP (MarshalJSON json_Marshal IP_String a)
             = Inr \<lparr>addr_hn = [], addr_net = addr_net a, addr_IP = ip,
                    addr_Port = addr_Port a, addr_Zone = []\<rparr>
           \<and> Equal a \<lparr>addr_hn = [], addr_net = addr_net a, addr_IP = ip,
                    addr_Port = addr_Port a, addr_Zone = []\<rparr>"
proof -
  have "\<not> IsUnspecified ip"
    using assms(3) assms(6) IsUnspecified_Equal [OF IP_Equal_sym] by blast
  with assms show ?thesis
    by (simp add: decodeAddress_def MarshalJSON_def Equal_def)
qed

text \<open>No address that decodeAddress returns has a port outside 1 to 65534.\<close>

lemma decodeAddress_port_range:
  "decodeAddress json_Unmarshal ParseIP data = Inr b \<Longrightarrow> 0 < addr_Port b \<and> addr_Port b < 65535"
  by (auto simp: decodeAddress_def split: option.splits if_splits)

text \<open>
  C3 at the port 65535: an address with that port, which NewAddr of the package
  constructs, is marshalled to its JSON form and the JSON form is decoded. Whatever the
  JSON and IP functions of the library do, the decoding does not give an address equal
  to the original, since decodeAddress refuses every port from 65535 on; and when the
  JSON library gives back the object it wrote, the decoding fails with ErrInvalidAddr.
\<close>

theorem decodeAddress_rejects_port_65535:
  assumes "addr_Port a = 65535"
  shows "(\<forall>b. decodeAddress json_Unmarshal ParseIP (MarshalJSON json_Marshal IP_String a) = Inr b
             \<longrightarrow> \<not> Equal a b)
         \<and> (json_Unmarshal (json_Marshal \<lparr>desc_Type = addr_net a,
                 desc_IP = IP_String (addr_IP a), desc_Port = addr_Port a\<rparr>)
               = Some \<lparr>desc_Type = addr_net a, desc_IP = IP_String (addr_IP a),
                   desc_Port = addr_Port a\<rparr>
             \<longrightarrow> decodeAddress json_Unmarshal ParseIP (MarshalJSON json_Marshal IP_String a)
                   = Inl ErrInvalidAddr)"
proof -
  have "\<not> Equal a b"
    if "decodeAddress json_Unmarshal ParseIP (MarshalJSON json_Marshal IP_String a) = Inr b" for b
    using decodeAddress_port_range [OF that] assms by (simp add: Equal_def)
  moreover have "decodeAddress json_Unmarshal ParseIP (MarshalJSON json_Marshal IP_String a)
      = Inl ErrInvalidAddr"
    if "json_Unmarshal (json_Marshal \<lparr>desc_Type = addr_net a,
                 desc_IP = IP_String (addr_IP a), desc_Port = addr_Port a\<rparr>)
               = Some \<lparr>desc_Type = addr_net a, desc_IP = IP_String (addr_IP a),
                   desc_Port = addr_Port a\<rparr>"
    using that assms by (simp add: decodeAddress_def MarshalJSON_def split: option.splits)
  ultimately show ?thesis by blast
qed

text \<open>
  C3 for the address 1.2.3.4: NewAddr accepts the port 65535, the JSON form of that
  address is refused, and the JSON form of the same address with the port 4242 is
  decoded to an equal address.
\<close>

theorem decodeAddress_rejects_port_65535_witness:
  "udp_NewAddr (Some [1, 2, 3, 4]) 65535
     = Inr \<lparr>addr_hn = [], addr_net = ''udp4'', addr_IP = [1, 2, 3, 4], addr_Port = 65535,
            addr_Zone = []\<rparr>
   \<and> decodeAddress example_json_Unmarshal example_ParseIP
        (MarshalJSON example_json_Marshal example_IP_String
           \<lparr>addr_hn = [], addr_net = ''udp4'', addr_IP = [1, 2, 3, 4], addr_Port = 65535,
            addr_Zone = []\<rparr>)
     = Inl ErrInvalidAddr
   \<and> decodeAddress example_json_Unmarshal example_ParseIP
        (MarshalJSON example_json_Marshal example_IP_String
           \<lparr>addr_hn = [], addr_net = ''udp4'', addr_IP = [1, 2, 3, 4], addr_Port = 4242,
            addr_Zone = []\<rparr>)
     = Inr \<lparr>addr_hn = [], addr_net = ''udp4'', addr_IP = v4InV6Prefix @ [1, 2, 3, 4],
            addr_Port = 4242, addr_Zone = []\<rparr>
   \<and> Equal \<lparr>addr_hn = [], addr_net = ''udp4'', addr_IP = [1, 2, 3, 4], addr_Port = 4242,
            addr_Zone = []\<rparr>
         \<lparr>addr_hn = [], addr_net = ''udp4'', addr_IP = v4InV6Prefix @ [1, 2, 3, 4],
            addr_Port = 4242, addr_Zone = []\<rparr>"
proof -
  have new: "udp_NewAddr (Some [1, 2, 3, 4]) 65535
     = Inr \<lparr>addr_hn = [], addr_net = ''udp4'', addr_IP = [1, 2, 3, 4], addr_Port = 65535,
            addr_Zone = []\<rparr>"
    by (simp add: udp_NewAddr_def To4_def UDPv4_def)
  have rt: "example_json_Unmarshal (example_json_Marshal
        \<lparr>desc_Type = ''udp4'', desc_IP = example_IP_String [1, 2, 3, 4], desc_Port = 65535\<rparr>)
      = Some \<lparr>desc_Type = ''udp4'', desc_IP = example_IP_String [1, 2, 3, 4], desc_Port = 65535\<rparr>"
    by (simp add: example_json_Unmarshal_def example_json_Marshal_def example_IP_String_def To4_def)
  have bad: "decodeAddress example_json_Unmarshal example_ParseIP
        (MarshalJSON example_json_Marshal example_IP_String
           \<lparr>addr_hn = [], addr_net = ''udp4'', addr_IP = [1, 2, 3, 4], addr_Port = 65535,
            addr_Zone = []\<rparr>)
     = Inl ErrInvalidAddr"
    using decodeAddress_rejects_port_65535 [where a = "\<lparr>addr_hn = [], addr_net = ''udp4'',
        addr_IP = [1, 2, 3, 4], addr_Port = 65535, addr_Zone = []\<rparr>"
        and json_Unmarshal = example_json_Unmarshal and json_Marshal = example_json_Marshal
        and IP_String = example_IP_String and ParseIP = example_ParseIP] rt
    by simp
  have rt': "example_json_Unmarshal (example_json_Marshal
        \<lparr>desc_Type = ''udp4'', desc_IP = example_IP_String [1, 2, 3, 4], desc_Port = 4242\<rparr>)
      = Some \<lparr>desc_Type = ''udp4'', desc_IP = example_IP_String [1, 2, 3, 4], desc_Port = 4242\<rparr>"
    by (simp add: example_json_Unmarshal_def example_json_Marshal_def example_IP_String_def To4_def)
  have good: "decodeAddress example_json_Unmarshal example_ParseIP
        (MarshalJSON example_json_Marshal example_IP_String
           \<lparr>addr_hn = [], addr_net = ''udp4'', addr_IP = [1, 2, 3, 4], addr_Port = 4242,
            addr_Zone = []\<rparr>)
     = Inr \<lparr>addr_hn = [], addr_net = ''udp4'', addr_IP = v4InV6Prefix @ [1, 2, 3, 4],
            addr_Port = 4242, addr_Zone = []\<rparr>
     \<and> Equal \<lparr>addr_hn = [], addr_net = ''udp4'', addr_IP = [1, 2, 3, 4], addr_Port = 4242,
            addr_Zone = []\<rparr>
         \<lparr>addr_hn = [], addr_net = ''udp4'', addr_IP = v4InV6Prefix @ [1, 2, 3, 4],
            addr_Port = 4242, addr_Zone = []\<rparr>"
    using decodeAddress_MarshalJSON_below_65535 [where a = "\<lparr>addr_hn = [], addr_net = ''udp4'',
        addr_IP = [1, 2, 3, 4], addr_Port = 4242, addr_Zone = []\<rparr>"
        and json_Unmarshal = example_json_Unmarshal and json_Marshal = example_json_Marshal
        and IP_String = example_IP_String and ParseIP = example_ParseIP
        and ip = "v4InV6Prefix @ [1, 2, 3, 4]"] rt'
    by (simp add: example_IP_String_def example_ParseIP_def To4_def IsUnspecified_cases
        IP_Equal_def v4InV6Prefix_def)
  from new bad good show ?thesis by simp
qed


section \<open>Properties of the channel dispatch of a peer\<close>

text \<open>
  C7, as stated: a packet for no existing channel whose seq is 0 and whose type is not
  empty opens a responder channel, and every other outcome is the invalid-packet error.
  It fails when the channel constructor refuses: such a packet then opens no channel, and
  the error returned is the constructor's, not the invalid-packet error.
\<close>

theorem push_rcv_pkt_constructor_error_counterexample:
  "push_rcv_pkt example_refusing_make_channel example_channel_id example_channel_push
      \<lparr>peer_addr = ''peer-a'', peer_channels = Map.empty\<rparr>
      \<lparr>pkt_hdr = \<lparr>hdr_C = ''c1'', hdr_Type = ''echo'', hdr_Seq = Some 0\<rparr>,
        pkt_addr = [], pkt_body = [104, 105]\<rparr>
     = (Some (channel_error ''too many channels''),
        \<lparr>peer_addr = ''peer-a'', peer_channels = Map.empty\<rparr>, [])
   \<and> fst (push_rcv_pkt example_refusing_make_channel example_channel_id example_channel_push
      \<lparr>peer_addr = ''peer-a'', peer_channels = Map.empty\<rparr>
      \<lparr>pkt_hdr = \<lparr>hdr_C = ''c1'', hdr_Type = ''echo'', hdr_Seq = Some 0\<rparr>,
        pkt_addr = [], pkt_body = [104, 105]\<rparr>) \<noteq> Some errInvalidPkt
   \<and> peer_channels (fst (snd
        (push_rcv_pkt example_refusing_make_channel example_channel_id example_channel_push
          \<lparr>peer_addr = ''peer-a'', peer_channels = Map.empty\<rparr>
          \<lparr>pkt_hdr = \<lparr>hdr_C = ''c1'', hdr_Type = ''echo'', hdr_Seq = Some 0\<rparr>,
            pkt_addr = [], pkt_body = [104, 105]\<rparr>))) ''c1'' = None"
  by (simp add: push_rcv_pkt_def peer_make_channel_def example_refusing_make_channel_def
      seq_IsSet_def seq_Get_def)

text \<open>
  C7, amended: a packet whose channel id matches no channel of the peer asks the
  constructor for a channel exactly when its channel id is not empty, its seq is set to
  0 and its type is not empty. The constructor is asked for a responder channel of that
  id and type; the channel it returns is registered, the packet (with the peer's
  address) is pushed to it, and the user handler is started when the push gives no
  error. When the constructor itself fails, its error is returned and the peer is
  unchanged. In every other case (seq not set, seq not 0, empty type, empty channel id)
  the invalid-packet error is returned and the peer is unchanged: no channel is created.
\<close>

theorem push_rcv_pkt_new_channel:
  assumes "peer_channels p (hdr_C (pkt_hdr pkt)) = None"
  shows
   "(hdr_C (pkt_hdr pkt) \<noteq> [] \<and> hdr_Seq (pkt_hdr pkt) = Some 0 \<and> hdr_Type (pkt_hdr pkt) \<noteq> []
       \<and> make_channel (hdr_C (pkt_hdr pkt)) (hdr_Type (pkt_hdr pkt)) False = Inr ch \<longrightarrow>
     push_rcv_pkt make_channel channel_id channel_push_rcv_pkt p pkt =
       (map_option channel_error (fst (channel_push_rcv_pkt ch (pkt\<lparr>pkt_addr := peer_addr p\<rparr>))),
        p\<lparr>peer_channels := (peer_channels p)
             (channel_id ch \<mapsto> snd (channel_push_rcv_pkt ch (pkt\<lparr>pkt_addr := peer_addr p\<rparr>)))\<rparr>,
        if fst (channel_push_rcv_pkt ch (pkt\<lparr>pkt_addr := peer_addr p\<rparr>)) = None
        then [channel_id ch] else []))
    \<and> (hdr_C (pkt_hdr pkt) \<noteq> [] \<and> hdr_Seq (pkt_hdr pkt) = Some 0 \<and> hdr_Type (pkt_hdr pkt) \<noteq> []
       \<and> make_channel (hdr_C (pkt_hdr pkt)) (hdr_Type (pkt_hdr pkt)) False = Inl e \<longrightarrow>
     push_rcv_pkt make_channel channel_id channel_push_rcv_pkt p pkt =
       (Some (channel_error e), p, []))
    \<and> (hdr_C (pkt_hdr pkt) = [] \<or> hdr_Seq (pkt_hdr pkt) \<noteq> Some 0 \<or> hdr_Type (pkt_hdr pkt) = [] \<longrightarrow>
     push_rcv_pkt make_channel channel_id channel_push_rcv_pkt p pkt =
       (Some errInvalidPkt, p, []))"
  using assms
  by (cases "channel_push_rcv_pkt ch (pkt\<lparr>pkt_addr := peer_addr p\<rparr>)")
     (auto simp: push_rcv_pkt_def peer_make_channel_def seq_IsSet_def seq_Get_def Let_def
           split: option.splits)

text \<open>
  C7 at a peer without channels: the packet with seq 0 and the type echo opens the
  responder channel c1 and is its first packet; the same packet with seq 1 is refused.
\<close>

theorem push_rcv_pkt_new_channel_witness:
  "push_rcv_pkt example_make_channel example_channel_id example_channel_push
      \<lparr>peer_addr = ''peer-a'', peer_channels = Map.empty\<rparr>
      \<lparr>pkt_hdr = \<lparr>hdr_C = ''c1'', hdr_Type = ''echo'', hdr_Seq = Some 0\<rparr>,
        pkt_addr = [], pkt_body = [104, 105]\<rparr>
     = (None,
        \<lparr>peer_addr = ''peer-a'',
          peer_channels = [''c1'' \<mapsto>
            \<lparr>example_channel_id = ''c1'', example_channel_type = ''echo'',
              example_initiator = False,
              example_rcv_buf = [\<lparr>pkt_hdr = \<lparr>hdr_C = ''c1'', hdr_Type = ''echo'', hdr_Seq = Some 0\<rparr>,
                          pkt_addr = ''peer-a'', pkt_body = [104, 105]\<rparr>]\<rparr>]\<rparr>,
        [''c1''])
   \<and> push_rcv_pkt example_make_channel example_channel_id example_channel_push
      \<lparr>peer_addr = ''peer-a'', peer_channels = Map.empty\<rparr>
      \<lparr>pkt_hdr = \<lparr>hdr_C = ''c1'', hdr_Type = ''echo'', hdr_Seq = Some 1\<rparr>,
        pkt_addr = [], pkt_body = [104, 105]\<rparr>
     = (Some errInvalidPkt, \<lparr>peer_addr = ''peer-a'', peer_channels = Map.empty\<rparr>, [])"
  using push_rcv_pkt_new_channel [where p = "\<lparr>peer_addr = ''peer-a'', peer_channels = Map.empty\<rparr>"
      and pkt = "\<lparr>pkt_hdr = \<lparr>hdr_C = ''c1'', hdr_Type = ''echo'', hdr_Seq = Some 0\<rparr>,
        pkt_addr = [], pkt_body = [104, 105]\<rparr>"
      and make_channel = example_make_channel and channel_id = example_channel_id
      and channel_push_rcv_pkt = example_channel_push
      and ch = "\<lparr>example_channel_id = ''c1'', example_channel_type = ''echo'',
                example_initiator = False, example_rcv_buf = []\<rparr>"
      and e = "''none''"]
    push_rcv_pkt_new_channel [where p = "\<lparr>peer_addr = ''peer-a'', peer_channels = Map.empty\<rparr>"
      and pkt = "\<lparr>pkt_hdr = \<lparr>hdr_C = ''c1'', hdr_Type = ''echo'', hdr_Seq = Some 1\<rparr>,
        pkt_addr = [], pkt_body = [104, 105]\<rparr>"
      and make_channel = example_make_channel and channel_id = example_channel_id
      and channel_push_rcv_pkt = example_channel_push
      and ch = "\<lparr>example_channel_id = ''c1'', example_channel_type = ''echo'',
                example_initiator = False, example_rcv_buf = []\<rparr>"
      and e = "''none''"]
  by (simp add: example_make_channel_def example_channel_push_def)

end
